theory Spec2Isabelle
  imports Main "HOL-Library.AList" "HOL-Library.Sublist"
begin

section \<open>Data model\<close>

text \<open>
  The embedding follows the class \<open>Plugin\<close> of webpack-subresource-integrity. Asset
  content (\<open>string | Buffer\<close> in the source) is a \<open>string\<close>. Every function of the
  source that mutates \<open>this\<close> or its \<open>assets\<close> argument takes the plugin and the assets
  and returns the updated ones; every exception of the source is a value of type
  \<open>error\<close>.
\<close>

type_synonym bytes = string

datatype error = SourceThrows | TypeError | AssertionError | ReadFileError

text \<open>A chunk id is \<open>string | number\<close>; \<open>chunk.id\<close> may be \<open>null\<close>.\<close>

datatype ChunkId = IdString string | IdNumber int

record Chunk =
  chunk_id :: "ChunkId option"
  files :: "string list"

record StronglyConnectedComponent =
  nodes :: "Chunk list"

subsection \<open>Sources\<close>

text \<open>
  The objects stored in \<open>assets\<close> are webpack \<open>sources.Source\<close> objects. \<open>RawSource\<close>
  holds its content, \<open>ThrowingSource\<close> is a source whose \<open>source()\<close> method throws
  (the case \<open>addMissingIntegrityHashes\<close> guards against), and \<open>ReplaceSource\<close> is the
  wrapper \<open>replaceAsset\<close> builds: a source and the replacements registered on it, in
  the order of the calls of \<open>replace(start, end, newValue)\<close>. Positions refer to the
  wrapped source's content and \<open>end\<close> is inclusive.
\<close>

datatype Replacement = Replacement (r_start: int) (r_end: int) (r_content: string)

datatype Source = RawSource string | ThrowingSource | ReplaceSource Source "Replacement list"

text \<open>
  \<open>ReplaceSource.source()\<close> of webpack-sources sorts the replacements by start, then
  by end, keeping the order of insertion among equals, and walks the content once.
\<close>

definition replacement_le :: "Replacement \<Rightarrow> Replacement \<Rightarrow> bool" where
  "replacement_le a b =
     (r_start a < r_start b \<or> (r_start a = r_start b \<and> r_end a \<le> r_end b))"

fun insertReplacement :: "Replacement \<Rightarrow> Replacement list \<Rightarrow> Replacement list" where
  "insertReplacement r [] = [r]"
| "insertReplacement r (x # xs) =
     (if replacement_le r x then r # x # xs else x # insertReplacement r xs)"

definition sortReplacements :: "Replacement list \<Rightarrow> Replacement list" where
  "sortReplacements rs = foldr insertReplacement rs []"

fun applyReplacements :: "int \<Rightarrow> string \<Rightarrow> Replacement list \<Rightarrow> string" where
  "applyReplacements pos current [] = current"
| "applyReplacements pos current (r # rs) =
     (let start = r_start r;
          end1 = r_end r + 1;
          before = (if pos < start then take (nat (start - pos)) current else []);
          current1 = (if pos < start then drop (nat (start - pos)) current else current);
          pos1 = (if pos < start then start else pos);
          current2 = (if pos1 < end1 then drop (nat (end1 - pos1)) current1 else current1);
          pos2 = (if pos1 < end1 then end1 else pos1)
      in before @ r_content r @ applyReplacements pos2 current2 rs)"

fun source :: "Source \<Rightarrow> string option" where
  "source (RawSource s) = Some s"
| "source ThrowingSource = None"
| "source (ReplaceSource inner rs) =
     (case source inner of
        None \<Rightarrow> None
      | Some s \<Rightarrow> Some (applyReplacements 0 s (sortReplacements rs)))"

text \<open>
  \<open>assets\<close> is a \<open>Record<string, sources.Source>\<close>: an association list in the order
  of \<open>Object.keys\<close>. The code only reads it and assigns to keys it has just found, so
  the key order never changes.
\<close>

type_synonym Assets = "(string \<times> Source) list"

definition assetContent :: "Assets \<Rightarrow> string \<Rightarrow> string option" where
  "assetContent assets k = (case map_of assets k of None \<Rightarrow> None | Some a \<Rightarrow> source a)"

subsection \<open>Tags, options, compilation\<close>

datatype AttributeValue = AttrString string | AttrBool bool

record HtmlTagObject =
  tagName :: string
  attributes :: "string \<rightharpoonup> AttributeValue"
  voidTag :: bool

datatype HashLoading = Eager | Lazy

record Options =
  hashFuncNames :: "string list"
  hashLoading :: HashLoading

text \<open>
  webpack declares \<open>output.crossOriginLoading\<close> as
  \<open>false | "anonymous" | "use-credentials"\<close>; \<open>None\<close> is \<open>false\<close> or unset.
\<close>

datatype CrossOrigin = Anonymous | UseCredentials

fun crossOriginString :: "CrossOrigin \<Rightarrow> string" where
  "crossOriginString Anonymous = ''anonymous''"
| "crossOriginString UseCredentials = ''use-credentials''"

record Compilation =
  compilation_chunks :: "Chunk list"
  compilation_assets :: Assets
  outputPath :: string
  crossOriginLoading :: "CrossOrigin option"

text \<open>
  The functions the class imports from \<open>./util\<close>, \<open>path\<close> and \<open>fs\<close> are parameters of
  the embedding: every theorem below holds for any choice of them. \<open>readFileSync\<close>
  returns \<open>None\<close> where the call throws. \<open>computeIntegrity\<close> is a total function: a
  hash function name it does not know is a configuration error that is settled
  before a \<open>Plugin\<close> is constructed from its resolved options.
\<close>

record Env =
  computeIntegrity :: "string list \<Rightarrow> bytes \<Rightarrow> string"
  makePlaceholder :: "string list \<Rightarrow> ChunkId \<Rightarrow> string"
  findChunks :: "Chunk \<Rightarrow> Chunk list"
  getChunkToManifestMap ::
    "Chunk list \<Rightarrow> StronglyConnectedComponent list \<times> (Chunk \<times> Chunk list) list"
  normalizePath :: "string \<Rightarrow> string"
  getTagSrc :: "HtmlTagObject \<Rightarrow> string option"
  relative :: "string \<Rightarrow> string \<Rightarrow> string"
  join :: "string \<Rightarrow> string \<Rightarrow> string"
  readFileSync :: "string \<Rightarrow> bytes option"

text \<open>
  The fields of \<open>Plugin\<close>. \<open>hashByChunkId\<close> is a \<open>Map\<close> that \<open>replaceAsset\<close> iterates,
  so it is an association list in insertion order (\<open>Map.set\<close> on a key that is present
  keeps its position: \<open>AList.update\<close>). The two registry maps are only read and
  written by key.
\<close>

record Plugin =
  compilation :: Compilation
  options :: Options
  assetIntegrity :: "string \<rightharpoonup> string"
  inverseAssetIntegrity :: "string \<rightharpoonup> string"
  hwpPublicPath :: "string option"
  sortedSccChunks :: "StronglyConnectedComponent list"
  chunkManifest :: "(Chunk \<times> Chunk list) list"
  hashByChunkId :: "(ChunkId \<times> string) list"

definition newPlugin :: "Compilation \<Rightarrow> Options \<Rightarrow> Plugin" where
  "newPlugin c opts =
     \<lparr> compilation = c, options = opts,
       assetIntegrity = Map.empty, inverseAssetIntegrity = Map.empty,
       hwpPublicPath = None, sortedSccChunks = [], chunkManifest = [],
       hashByChunkId = [] \<rparr>"

section \<open>The integrity registry\<close>

definition updateAssetIntegrity :: "Plugin \<Rightarrow> string \<Rightarrow> string \<Rightarrow> Plugin" where
  "updateAssetIntegrity p assetKey integrity =
     (if assetIntegrity p assetKey = None
      then p\<lparr> assetIntegrity := (assetIntegrity p)(assetKey \<mapsto> integrity),
              inverseAssetIntegrity := (inverseAssetIntegrity p)(integrity \<mapsto> assetKey) \<rparr>
      else p)"

text \<open>
  \<open>updateHash\<close> returns the new integrity (\<open>None\<close> for \<open>undefined\<close>) and the updated
  plugin. The test \<open>assetKey && input.length === 1\<close> is a truthiness test: it fails for
  a missing entry and for the empty string.
\<close>

definition updateHash ::
  "Env \<Rightarrow> Plugin \<Rightarrow> bytes list \<Rightarrow> string \<Rightarrow> string option \<times> Plugin" where
  "updateHash env p input oldHash =
     (case inverseAssetIntegrity p oldHash of
        None \<Rightarrow> (None, p)
      | Some assetKey \<Rightarrow>
          if assetKey \<noteq> [] \<and> length input = 1
          then
            (let newIntegrity = computeIntegrity env (hashFuncNames (options p)) (hd input);
                 p1 = p\<lparr> inverseAssetIntegrity := (inverseAssetIntegrity p)(oldHash := None) \<rparr>;
                 p2 = p1\<lparr> assetIntegrity := (assetIntegrity p1)(assetKey := None) \<rparr>
             in (Some newIntegrity, updateAssetIntegrity p2 assetKey newIntegrity))
          else (None, p))"

text \<open>
  \<open>addMissingIntegrityHashes\<close>: the body of the \<open>forEach\<close> over \<open>Object.keys(assets)\<close>,
  then the loop. A source that throws is skipped by the \<open>try\<close>/\<open>catch\<close>.
\<close>

definition addMissingIntegrityHash :: "Env \<Rightarrow> Assets \<Rightarrow> Plugin \<Rightarrow> string \<Rightarrow> Plugin" where
  "addMissingIntegrityHash env assets p assetKey =
     (case map_of assets assetKey of
        None \<Rightarrow> p
      | Some asset \<Rightarrow>
          (case source asset of
             None \<Rightarrow> p
           | Some content \<Rightarrow>
               updateAssetIntegrity p assetKey
                 (computeIntegrity env (hashFuncNames (options p)) content)))"

definition addMissingIntegrityHashes :: "Env \<Rightarrow> Plugin \<Rightarrow> Assets \<Rightarrow> Plugin" where
  "addMissingIntegrityHashes env p assets =
     foldl (addMissingIntegrityHash env assets) p (map fst assets)"

text \<open>
  A sequence of registry calls, for statements about every sequence of them.
\<close>

datatype RegistryCall = Record string string | Rehash "bytes list" string

fun registryCall :: "Env \<Rightarrow> Plugin \<Rightarrow> RegistryCall \<Rightarrow> Plugin" where
  "registryCall env p (Record assetKey integrity) = updateAssetIntegrity p assetKey integrity"
| "registryCall env p (Rehash input oldHash) = snd (updateHash env p input oldHash)"

definition registryCalls :: "Env \<Rightarrow> Plugin \<Rightarrow> RegistryCall list \<Rightarrow> Plugin" where
  "registryCalls env p calls = foldl (registryCall env) p calls"

section \<open>The chunk walk\<close>

text \<open>
  \<open>String.prototype.indexOf\<close>: the position of the first occurrence, \<open>-1\<close> if there
  is none.
\<close>

fun indexOf :: "string \<Rightarrow> string \<Rightarrow> int" where
  "indexOf [] m = (if m = [] then 0 else - 1)"
| "indexOf (c # cs) m =
     (if prefix m (c # cs) then 0
      else (let i = indexOf cs m in if i < 0 then - 1 else i + 1))"

text \<open>
  The \<open>forEach\<close> of \<open>replaceAsset\<close> over the entries of \<open>hashByChunkId\<close>: the calls of
  \<open>newAsset.replace\<close> it makes, in order. Every position is one of \<open>oldSource\<close>.
\<close>

fun markerReplacements ::
  "Env \<Rightarrow> string list \<Rightarrow> string \<Rightarrow> (ChunkId \<times> string) list \<Rightarrow> Replacement list" where
  "markerReplacements env names oldSource [] = []"
| "markerReplacements env names oldSource (idAndHash # rest) =
     (let magicMarker = makePlaceholder env names (fst idAndHash);
          magicMarkerPos = indexOf oldSource magicMarker
      in (if magicMarkerPos \<ge> 0
          then [Replacement magicMarkerPos (magicMarkerPos + int (length magicMarker) - 1)
                  (snd idAndHash)]
          else [])
         @ markerReplacements env names oldSource rest)"

definition replaceAsset ::
  "Env \<Rightarrow> Plugin \<Rightarrow> Assets \<Rightarrow> (ChunkId \<times> string) list \<Rightarrow> string \<Rightarrow> error + Source \<times> Assets" where
  "replaceAsset env p assets hashes chunkFile =
     (case map_of assets chunkFile of
        None \<Rightarrow> Inl TypeError
      | Some asset \<Rightarrow>
          (case source asset of
             None \<Rightarrow> Inl SourceThrows
           | Some oldSource \<Rightarrow>
               (let newAsset = ReplaceSource asset
                      (markerReplacements env (hashFuncNames (options p)) oldSource hashes)
                in Inr (newAsset, AList.update chunkFile newAsset assets))))"

text \<open>\<open>forEach\<close> with a body that may throw: the first exception ends the loop.\<close>

fun forEachResult :: "('s \<Rightarrow> 'a \<Rightarrow> error + 's) \<Rightarrow> 'a list \<Rightarrow> 's \<Rightarrow> error + 's" where
  "forEachResult f [] s = Inr s"
| "forEachResult f (x # xs) s =
     (case f s x of Inl e \<Rightarrow> Inl e | Inr s' \<Rightarrow> forEachResult f xs s')"

text \<open>The template string \<open>`${childChunk.id}.js`\<close>.\<close>

fun natString :: "nat \<Rightarrow> string" where
  "natString n =
     (if n < 10 then [''0123456789'' ! n]
      else natString (n div 10) @ [''0123456789'' ! (n mod 10)])"

declare natString.simps [simp del]

fun chunkIdString :: "ChunkId option \<Rightarrow> string" where
  "chunkIdString None = ''null''"
| "chunkIdString (Some (IdString s)) = s"
| "chunkIdString (Some (IdNumber n)) =
     (if n < 0 then ''-'' @ natString (nat (- n)) else natString (nat n))"

definition chunkFiles :: "Chunk \<Rightarrow> string list" where
  "chunkFiles childChunk =
     (if length (files childChunk) \<le> 0 then [chunkIdString (chunk_id childChunk) @ ''.js'']
      else files childChunk)"

text \<open>
  The body of the \<open>files.forEach\<close> of \<open>processChunkAssets\<close>. The reporter's warnings
  and the asset info that \<open>compilation.updateAsset\<close> extends are not part of the state:
  \<open>updateAsset\<close> is called with the identity on the source, on a file that was just
  found in \<open>assets\<close>.
\<close>

definition processChunkFile ::
  "Env \<Rightarrow> Chunk \<Rightarrow> Plugin \<times> Assets \<Rightarrow> string \<Rightarrow> error + Plugin \<times> Assets" where
  "processChunkFile env childChunk st sourcePath =
     (case st of (p, assets) \<Rightarrow>
       (case map_of assets sourcePath of
          None \<Rightarrow> Inr (p, assets)
        | Some asset \<Rightarrow>
            (case source asset of
               None \<Rightarrow> Inl SourceThrows
             | Some hotUpdateChecked \<Rightarrow>
                 (case replaceAsset env p assets (hashByChunkId p) sourcePath of
                    Inl e \<Rightarrow> Inl e
                  | Inr (newAsset, assets') \<Rightarrow>
                      (case source newAsset of
                         None \<Rightarrow> Inl SourceThrows
                       | Some content \<Rightarrow>
                           (let integrity = computeIntegrity env (hashFuncNames (options p)) content;
                                p1 = (case chunk_id childChunk of
                                        None \<Rightarrow> p
                                      | Some i \<Rightarrow>
                                          p\<lparr> hashByChunkId :=
                                               AList.update i integrity (hashByChunkId p) \<rparr>);
                                p2 = updateAssetIntegrity p1 sourcePath integrity
                            in Inr (p2, assets')))))))"

definition processChunkAssets ::
  "Env \<Rightarrow> Chunk \<Rightarrow> Plugin \<times> Assets \<Rightarrow> error + Plugin \<times> Assets" where
  "processChunkAssets env childChunk st =
     forEachResult (processChunkFile env childChunk) (chunkFiles childChunk) st"

definition processChunk ::
  "Env \<Rightarrow> Chunk \<Rightarrow> Plugin \<times> Assets \<Rightarrow> error + Plugin \<times> Assets" where
  "processChunk env chunk st =
     forEachResult (\<lambda>st' c. processChunkAssets env c st') (rev (findChunks env chunk)) st"

definition processAssets :: "Env \<Rightarrow> Plugin \<Rightarrow> Assets \<Rightarrow> error + Plugin \<times> Assets" where
  "processAssets env p assets =
     (case (if hashLoading (options p) = Lazy
            then forEachResult
                   (\<lambda>st scc. forEachResult (\<lambda>st' c. processChunkAssets env c st') (nodes scc) st)
                   (sortedSccChunks p) (p, assets)
            else forEachResult (\<lambda>st c. processChunk env c st)
                   (compilation_chunks (compilation p)) (p, assets)) of
        Inl e \<Rightarrow> Inl e
      | Inr (p', assets') \<Rightarrow> Inr (addMissingIntegrityHashes env p' assets', assets'))"

definition beforeRuntimeRequirements :: "Env \<Rightarrow> Plugin \<Rightarrow> Plugin" where
  "beforeRuntimeRequirements env p =
     (let p1 = (if hashLoading (options p) = Lazy
                then (case getChunkToManifestMap env (compilation_chunks (compilation p)) of
                        (sccs, manifest) \<Rightarrow>
                          p\<lparr> sortedSccChunks := sccs, chunkManifest := manifest \<rparr>)
                else p)
      in p1\<lparr> hashByChunkId := [] \<rparr>)"

section \<open>The tag injector\<close>

definition hwpAssetPath :: "Env \<Rightarrow> Plugin \<Rightarrow> string \<Rightarrow> error + string" where
  "hwpAssetPath env p src =
     (case hwpPublicPath p of
        None \<Rightarrow> Inl AssertionError
      | Some publicPath \<Rightarrow> Inr (relative env publicPath src))"

definition getIntegrityChecksumForAsset ::
  "Env \<Rightarrow> Plugin \<Rightarrow> Assets \<Rightarrow> string \<Rightarrow> string option" where
  "getIntegrityChecksumForAsset env p assets src =
     (if assetIntegrity p src \<noteq> None then assetIntegrity p src
      else (let normalizedSrc = normalizePath env src in
            case find (\<lambda>assetKey. normalizePath env assetKey = normalizedSrc) (map fst assets) of
              None \<Rightarrow> None
            | Some normalizedKey \<Rightarrow>
                if normalizedKey \<noteq> [] then assetIntegrity p normalizedKey else None))"

text \<open>
  \<open>processTag\<close> mutates the tag it is given; the embedding returns the tag after the
  call. \<open>HtmlTagObject\<close> declares \<open>attributes\<close> as required, so the test
  \<open>tag.attributes &&\<close> holds and \<open>hasOwnProperty\<close> is membership in the domain of the
  attribute map. The right-hand side of \<open>||\<close> is evaluated when the lookup gives
  \<open>undefined\<close> or the empty string.
\<close>

definition tagIntegrity :: "Env \<Rightarrow> Plugin \<Rightarrow> string \<Rightarrow> error + string" where
  "tagIntegrity env p src =
     (let fromFile =
            (case readFileSync env (join env (outputPath (compilation p)) src) of
               None \<Rightarrow> Inl ReadFileError
             | Some content \<Rightarrow> Inr (computeIntegrity env (hashFuncNames (options p)) content))
      in case getIntegrityChecksumForAsset env p (compilation_assets (compilation p)) src of
           None \<Rightarrow> fromFile
         | Some checksum \<Rightarrow> if checksum \<noteq> [] then Inr checksum else fromFile)"

definition crossoriginValue :: "Plugin \<Rightarrow> string" where
  "crossoriginValue p =
     (case crossOriginLoading (compilation p) of
        None \<Rightarrow> ''anonymous''
      | Some mode \<Rightarrow> crossOriginString mode)"

definition processTag :: "Env \<Rightarrow> Plugin \<Rightarrow> HtmlTagObject \<Rightarrow> error + HtmlTagObject" where
  "processTag env p tag =
     (if attributes tag ''integrity'' \<noteq> None then Inr tag
      else
        (case getTagSrc env tag of
           None \<Rightarrow> Inr tag
         | Some tagSrc \<Rightarrow>
             if tagSrc = [] then Inr tag
             else
               (case hwpAssetPath env p tagSrc of
                  Inl e \<Rightarrow> Inl e
                | Inr src \<Rightarrow>
                    (case tagIntegrity env p src of
                       Inl e \<Rightarrow> Inl e
                     | Inr integrity \<Rightarrow>
                         Inr (tag\<lparr> attributes :=
                                (attributes tag)
                                  (''integrity'' \<mapsto> AttrString integrity,
                                   ''crossorigin'' \<mapsto> AttrString (crossoriginValue p)) \<rparr>)))))"

text \<open>The \<open>forEach\<close> of \<open>handleHwpBodyTags\<close> over the tags, and the method itself.\<close>

fun processTags :: "Env \<Rightarrow> Plugin \<Rightarrow> HtmlTagObject list \<Rightarrow> error + HtmlTagObject list" where
  "processTags env p [] = Inr []"
| "processTags env p (tag # tags) =
     (case processTag env p tag of
        Inl e \<Rightarrow> Inl e
      | Inr tag' \<Rightarrow>
          (case processTags env p tags of
             Inl e \<Rightarrow> Inl e
           | Inr tags' \<Rightarrow> Inr (tag' # tags')))"

definition handleHwpBodyTags ::
  "Env \<Rightarrow> Plugin \<Rightarrow> HtmlTagObject list \<Rightarrow> HtmlTagObject list \<Rightarrow>
     error + Plugin \<times> HtmlTagObject list \<times> HtmlTagObject list" where
  "handleHwpBodyTags env p headTags bodyTags =
     (let p' = addMissingIntegrityHashes env p (compilation_assets (compilation p)) in
      case processTags env p' (headTags @ bodyTags) of
        Inl e \<Rightarrow> Inl e
      | Inr tags \<Rightarrow> Inr (p', take (length headTags) tags, drop (length headTags) tags))"

section \<open>Predicates of the statements\<close>

text \<open>
  \<open>inverseSound\<close>: every entry of the reverse map has its forward entry.
  \<open>registryAgrees\<close>: the two maps hold the same pairs. \<open>digestFree p k d\<close>: the
  reverse map sends the digest \<open>d\<close> to no asset key other than \<open>k\<close>; where the two
  maps agree, this says that no asset key other than \<open>k\<close> holds \<open>d\<close>.
  \<open>digestsApart\<close>: no call of the sequence stores a digest that another asset key
  holds at that moment.
\<close>

definition inverseSound :: "Plugin \<Rightarrow> bool" where
  "inverseSound p =
     (\<forall>d k. inverseAssetIntegrity p d = Some k \<longrightarrow> assetIntegrity p k = Some d)"

definition registryAgrees :: "Plugin \<Rightarrow> bool" where
  "registryAgrees p =
     (\<forall>d k. (assetIntegrity p k = Some d) = (inverseAssetIntegrity p d = Some k))"

definition digestFree :: "Plugin \<Rightarrow> string \<Rightarrow> string \<Rightarrow> bool" where
  "digestFree p k d =
     (inverseAssetIntegrity p d = None \<or> inverseAssetIntegrity p d = Some k)"

fun callKeepsDigestsApart :: "Env \<Rightarrow> Plugin \<Rightarrow> RegistryCall \<Rightarrow> bool" where
  "callKeepsDigestsApart env p (Record k d) = (assetIntegrity p k = None \<longrightarrow> digestFree p k d)"
| "callKeepsDigestsApart env p (Rehash input oldHash) =
     (case inverseAssetIntegrity p oldHash of
        None \<Rightarrow> True
      | Some k \<Rightarrow> k \<noteq> [] \<and> length input = 1 \<longrightarrow>
          digestFree p k (computeIntegrity env (hashFuncNames (options p)) (hd input)))"

fun digestsApart :: "Env \<Rightarrow> Plugin \<Rightarrow> RegistryCall list \<Rightarrow> bool" where
  "digestsApart env p [] = True"
| "digestsApart env p (c # cs) =
     (callKeepsDigestsApart env p c \<and> digestsApart env (registryCall env p c) cs)"




text \<open>
  The content of an asset after \<open>replaceAsset\<close>: the replacements of the placeholders
  found in \<open>oldSource\<close>, applied to it.
\<close>

definition replacedContent :: "Env \<Rightarrow> Plugin \<Rightarrow> string \<Rightarrow> string" where
  "replacedContent env p oldSource =
     applyReplacements 0 oldSource
       (sortReplacements
          (markerReplacements env (hashFuncNames (options p)) oldSource (hashByChunkId p)))"


section \<open>An example environment\<close>

text \<open>
  A concrete choice of the imported functions, for the statements at concrete inputs:
  a digest that depends on the length of the content only, in the format
  \<open>name-digest\<close> joined by spaces, and placeholders \<open>%%SRI0-CHUNKid%%\<close>.
\<close>

fun joinWith :: "string \<Rightarrow> string list \<Rightarrow> string" where
  "joinWith sep [] = []"
| "joinWith sep [x] = x"
| "joinWith sep (x # y # ys) = x @ sep @ joinWith sep (y # ys)"

definition exampleIntegrity :: "string list \<Rightarrow> bytes \<Rightarrow> string" where
  "exampleIntegrity names content =
     joinWith '' '' (map (\<lambda>name. name @ ''-'' @ map (\<lambda>_. CHR ''A'') content) names)"

definition examplePlaceholder :: "string list \<Rightarrow> ChunkId \<Rightarrow> string" where
  "examplePlaceholder names i = ''%%SRI0-CHUNK'' @ chunkIdString (Some i) @ ''%%''"

definition exampleTagSrc :: "HtmlTagObject \<Rightarrow> string option" where
  "exampleTagSrc tag =
     (if tagName tag \<noteq> ''script'' \<and> tagName tag \<noteq> ''link'' then None
      else (case attributes tag ''href'' of
              Some (AttrString s) \<Rightarrow> Some s
            | _ \<Rightarrow> (case attributes tag ''src'' of
                      Some (AttrString s) \<Rightarrow> Some s
                    | _ \<Rightarrow> None)))"

definition exampleEnv :: Env where
  "exampleEnv =
     \<lparr> computeIntegrity = exampleIntegrity,
       makePlaceholder = examplePlaceholder,
       findChunks = (\<lambda>c. [c]),
       getChunkToManifestMap = (\<lambda>cs. (map (\<lambda>c. \<lparr> nodes = [c] \<rparr>) cs, [])),
       normalizePath = (\<lambda>path. path),
       getTagSrc = exampleTagSrc,
       relative = (\<lambda>from to. if prefix from to then drop (length from) to else to),
       join = (\<lambda>dir file. dir @ ''/'' @ file),
       readFileSync = (\<lambda>path. None) \<rparr>"

definition exampleOptions :: Options where
  "exampleOptions = \<lparr> hashFuncNames = [''sha256''], hashLoading = Eager \<rparr>"

definition exampleCompilation :: Compilation where
  "exampleCompilation =
     \<lparr> compilation_chunks = [], compilation_assets = [],
       outputPath = ''dist'', crossOriginLoading = None \<rparr>"

text \<open>Two chunks that load each other, for the eager walk.\<close>

definition chunkA :: Chunk where
  "chunkA = \<lparr> chunk_id = Some (IdString ''a''), files = [''a.js''] \<rparr>"

definition chunkB :: Chunk where
  "chunkB = \<lparr> chunk_id = Some (IdString ''b''), files = [''b.js''] \<rparr>"

definition cycleEnv :: Env where
  "cycleEnv =
     exampleEnv\<lparr> findChunks :=
       (\<lambda>c. if c = chunkA then [chunkA, chunkB]
            else if c = chunkB then [chunkB, chunkA] else [c]) \<rparr>"

definition cycleAssets :: Assets where
  "cycleAssets =
     [(''a.js'', RawSource ''A:%%SRI0-CHUNKb%%''), (''b.js'', RawSource ''B:%%SRI0-CHUNKa%%'')]"

definition cyclePlugin :: Plugin where
  "cyclePlugin =
     newPlugin (exampleCompilation\<lparr> compilation_chunks := [chunkA, chunkB],
                                    compilation_assets := cycleAssets \<rparr>)
       exampleOptions"

text \<open>A parent chunk 1 whose content holds the placeholder of its child chunk 7.\<close>

definition chunk7 :: Chunk where
  "chunk7 = \<lparr> chunk_id = Some (IdNumber 7), files = [''7.js''] \<rparr>"

definition chunk1 :: Chunk where
  "chunk1 = \<lparr> chunk_id = Some (IdNumber 1), files = [''1.js''] \<rparr>"

definition lazyAssets :: Assets where
  "lazyAssets =
     [(''7.js'', RawSource ''x''), (''1.js'', RawSource ''load(%%SRI0-CHUNK7%%)'')]"

definition lazyPlugin :: Plugin where
  "lazyPlugin =
     (newPlugin (exampleCompilation\<lparr> compilation_chunks := [chunk1, chunk7],
                                     compilation_assets := lazyAssets \<rparr>)
        (exampleOptions\<lparr> hashLoading := Lazy \<rparr>))
       \<lparr> sortedSccChunks := [\<lparr> nodes = [chunk7] \<rparr>, \<lparr> nodes = [chunk1] \<rparr>] \<rparr>"


definition mainTag :: HtmlTagObject where
  "mainTag = \<lparr> tagName = ''script'', attributes = [''src'' \<mapsto> AttrString ''main.js''],
               voidTag = False \<rparr>"

definition mainPlugin :: Plugin where
  "mainPlugin =
     (updateAssetIntegrity (newPlugin exampleCompilation exampleOptions) ''main.js'' ''sha256-BBBB'')
       \<lparr> hwpPublicPath := Some [] \<rparr>"

definition styleTag :: HtmlTagObject where
  "styleTag = \<lparr> tagName = ''style'', attributes = [''media'' \<mapsto> AttrString ''print''],
                voidTag = False \<rparr>"

definition hashedPlugin :: Plugin where
  "hashedPlugin = lazyPlugin\<lparr> hashByChunkId := [(IdNumber 7, ''sha256-A'')] \<rparr>"

section \<open>Properties of the registry\<close>

lemmas registry_eval =
  registryCalls_def updateAssetIntegrity_def updateHash_def newPlugin_def
  exampleEnv_def exampleOptions_def exampleIntegrity_def digestFree_def Let_def

lemma updateAssetIntegrity_present:
  "assetIntegrity p k \<noteq> None \<Longrightarrow> updateAssetIntegrity p k d = p"
  by (auto simp: updateAssetIntegrity_def)

lemma updateAssetIntegrity_absent:
  "assetIntegrity p k = None \<Longrightarrow>
   updateAssetIntegrity p k d =
     p\<lparr> assetIntegrity := (assetIntegrity p)(k \<mapsto> d),
        inverseAssetIntegrity := (inverseAssetIntegrity p)(d \<mapsto> k) \<rparr>"
  by (simp add: updateAssetIntegrity_def)

lemma updateAssetIntegrity_keeps:
  "assetIntegrity p k = Some d \<Longrightarrow> assetIntegrity (updateAssetIntegrity p k' d') k = Some d"
  by (auto simp: updateAssetIntegrity_def)

lemma records_keep:
  "assetIntegrity p k = Some d \<Longrightarrow>
   assetIntegrity (foldl (\<lambda>q (k', d'). updateAssetIntegrity q k' d') p rs) k = Some d"
  by (induction rs arbitrary: p) (auto simp: updateAssetIntegrity_keeps split: prod.splits)

lemma updateHash_unknown:
  "inverseAssetIntegrity p oldHash = None \<or> inverseAssetIntegrity p oldHash = Some []
     \<or> length input \<noteq> 1 \<Longrightarrow>
   updateHash env p input oldHash = (None, p)"
  by (auto simp: updateHash_def split: option.splits)

lemma updateHash_known:
  assumes "inverseAssetIntegrity p oldHash = Some k" "k \<noteq> []" "input = [b]"
  shows "updateHash env p input oldHash =
     (Some (computeIntegrity env (hashFuncNames (options p)) b),
      p\<lparr> assetIntegrity :=
           (assetIntegrity p)(k \<mapsto> computeIntegrity env (hashFuncNames (options p)) b),
         inverseAssetIntegrity :=
           ((inverseAssetIntegrity p)(oldHash := None))
             (computeIntegrity env (hashFuncNames (options p)) b \<mapsto> k) \<rparr>)"
  using assms by (simp add: updateHash_def updateAssetIntegrity_def Let_def)

lemma inverseSound_updateAssetIntegrity:
  assumes "inverseSound p"
  shows "inverseSound (updateAssetIntegrity p k d)"
proof (cases "assetIntegrity p k")
  case (Some x)
  then show ?thesis using assms by (simp add: updateAssetIntegrity_present)
next
  case None
  have a: "\<And>d' k'. inverseAssetIntegrity p d' = Some k' \<Longrightarrow> assetIntegrity p k' = Some d'"
    using assms by (simp add: inverseSound_def)
  show ?thesis
    unfolding inverseSound_def updateAssetIntegrity_absent[OF None]
  proof (intro allI impI)
    fix d' k'
    assume h: "inverseAssetIntegrity
          (p\<lparr>assetIntegrity := (assetIntegrity p)(k \<mapsto> d),
               inverseAssetIntegrity := (inverseAssetIntegrity p)(d \<mapsto> k)\<rparr>) d' = Some k'"
    show "assetIntegrity
          (p\<lparr>assetIntegrity := (assetIntegrity p)(k \<mapsto> d),
               inverseAssetIntegrity := (inverseAssetIntegrity p)(d \<mapsto> k)\<rparr>) k' = Some d'"
    proof (cases "d' = d")
      case True
      with h show ?thesis by simp
    next
      case False
      with h have "inverseAssetIntegrity p d' = Some k'" by simp
      then have "assetIntegrity p k' = Some d'" by (rule a)
      with None have "k' \<noteq> k" by auto
      with \<open>assetIntegrity p k' = Some d'\<close> show ?thesis by simp
    qed
  qed
qed

lemma inverseSound_updateHash:
  assumes "inverseSound p"
  shows "inverseSound (snd (updateHash env p input oldHash))"
proof (cases "inverseAssetIntegrity p oldHash = None \<or> inverseAssetIntegrity p oldHash = Some []
     \<or> length input \<noteq> 1")
  case True
  then show ?thesis using assms by (simp add: updateHash_unknown)
next
  case False
  then obtain k b where k: "inverseAssetIntegrity p oldHash = Some k" "k \<noteq> []" "input = [b]"
    by (cases input) auto
  have a: "\<And>d' k'. inverseAssetIntegrity p d' = Some k' \<Longrightarrow> assetIntegrity p k' = Some d'"
    using assms by (simp add: inverseSound_def)
  have old: "assetIntegrity p k = Some oldHash" using a k(1) by simp
  show ?thesis
    unfolding inverseSound_def updateHash_known[OF k] snd_conv
  proof (intro allI impI)
    fix d' k'
    let ?n = "computeIntegrity env (hashFuncNames (options p)) b"
    assume h: "inverseAssetIntegrity
          (p\<lparr>assetIntegrity := (assetIntegrity p)(k \<mapsto> ?n),
               inverseAssetIntegrity := ((inverseAssetIntegrity p)(oldHash := None))(?n \<mapsto> k)\<rparr>) d'
          = Some k'"
    show "assetIntegrity
          (p\<lparr>assetIntegrity := (assetIntegrity p)(k \<mapsto> ?n),
               inverseAssetIntegrity := ((inverseAssetIntegrity p)(oldHash := None))(?n \<mapsto> k)\<rparr>) k'
          = Some d'"
    proof (cases "d' = ?n")
      case True
      with h show ?thesis by simp
    next
      case False
      with h have i: "d' \<noteq> oldHash" "inverseAssetIntegrity p d' = Some k'"
        by (auto split: if_splits)
      then have f: "assetIntegrity p k' = Some d'" using a by simp
      with old i(1) have "k' \<noteq> k" by auto
      with f show ?thesis by simp
    qed
  qed
qed

lemma inverseSound_registryCall:
  "inverseSound p \<Longrightarrow> inverseSound (registryCall env p c)"
  by (cases c) (simp_all add: inverseSound_updateAssetIntegrity inverseSound_updateHash)

lemma inverseSound_registryCalls:
  "inverseSound p \<Longrightarrow> inverseSound (registryCalls env p cs)"
  unfolding registryCalls_def
proof (induction cs arbitrary: p)
  case Nil
  then show ?case by simp
next
  case (Cons c cs)
  from Cons.prems have "inverseSound (registryCall env p c)" by (rule inverseSound_registryCall)
  then show ?case using Cons.IH by simp
qed

lemma inverseSound_newPlugin: "inverseSound (newPlugin c opts)"
  by (simp add: inverseSound_def newPlugin_def)

lemma registryAgrees_updateAssetIntegrity:
  assumes "registryAgrees p" "assetIntegrity p k = None \<longrightarrow> digestFree p k d"
  shows "registryAgrees (updateAssetIntegrity p k d)"
proof (cases "assetIntegrity p k")
  case (Some x)
  then show ?thesis using assms(1) by (simp add: updateAssetIntegrity_present)
next
  case None
  have a: "\<And>d' k'. (assetIntegrity p k' = Some d') = (inverseAssetIntegrity p d' = Some k')"
    using assms(1) by (simp add: registryAgrees_def)
  have nk: "\<And>d'. inverseAssetIntegrity p d' \<noteq> Some k"
    using a None by (metis option.distinct(1))
  have "inverseAssetIntegrity p d = None"
    using assms(2) None nk[of d] by (simp add: digestFree_def)
  then have nd: "\<And>k'. assetIntegrity p k' \<noteq> Some d"
    using a by simp
  show ?thesis
    unfolding registryAgrees_def updateAssetIntegrity_absent[OF None]
  proof (intro allI)
    fix d' k'
    show "(assetIntegrity
            (p\<lparr>assetIntegrity := (assetIntegrity p)(k \<mapsto> d),
                 inverseAssetIntegrity := (inverseAssetIntegrity p)(d \<mapsto> k)\<rparr>) k' = Some d') =
          (inverseAssetIntegrity
            (p\<lparr>assetIntegrity := (assetIntegrity p)(k \<mapsto> d),
                 inverseAssetIntegrity := (inverseAssetIntegrity p)(d \<mapsto> k)\<rparr>) d' = Some k')"
      using a[of k' d'] nk[of d'] nd[of k'] by auto
  qed
qed

lemma registryAgrees_updateHash:
  assumes "registryAgrees p" "callKeepsDigestsApart env p (Rehash input oldHash)"
  shows "registryAgrees (snd (updateHash env p input oldHash))"
proof (cases "inverseAssetIntegrity p oldHash = None \<or> inverseAssetIntegrity p oldHash = Some []
     \<or> length input \<noteq> 1")
  case True
  then show ?thesis using assms(1) by (simp add: updateHash_unknown)
next
  case False
  then obtain k b where k: "inverseAssetIntegrity p oldHash = Some k" "k \<noteq> []" "input = [b]"
    by (cases input) auto
  let ?n = "computeIntegrity env (hashFuncNames (options p)) b"
  have a: "\<And>d' k'. (assetIntegrity p k' = Some d') = (inverseAssetIntegrity p d' = Some k')"
    using assms(1) by (simp add: registryAgrees_def)
  have old: "assetIntegrity p k = Some oldHash" using a k(1) by simp
  have fr: "\<And>k'. assetIntegrity p k' = Some ?n \<Longrightarrow> k' = k"
    using assms(2) k a by (auto simp: digestFree_def)
  show ?thesis
    unfolding registryAgrees_def updateHash_known[OF k] snd_conv
  proof (intro allI)
    fix d' k'
    show "(assetIntegrity
            (p\<lparr>assetIntegrity := (assetIntegrity p)(k \<mapsto> ?n),
                 inverseAssetIntegrity := ((inverseAssetIntegrity p)(oldHash := None))(?n \<mapsto> k)\<rparr>)
            k' = Some d') =
          (inverseAssetIntegrity
            (p\<lparr>assetIntegrity := (assetIntegrity p)(k \<mapsto> ?n),
                 inverseAssetIntegrity := ((inverseAssetIntegrity p)(oldHash := None))(?n \<mapsto> k)\<rparr>)
            d' = Some k')"
    proof (cases "k' = k")
      case True
      have "inverseAssetIntegrity p d' = Some k \<Longrightarrow> d' = oldHash"
        using a[of k d'] old by simp
      then show ?thesis using True by auto
    next
      case False
      have "assetIntegrity p k' = Some d' \<Longrightarrow> d' \<noteq> ?n" using fr[of k'] False by auto
      moreover have "assetIntegrity p k' = Some d' \<Longrightarrow> d' \<noteq> oldHash"
        using a[of k' oldHash] k(1) False by auto
      ultimately show ?thesis using False a[of k' d'] by auto
    qed
  qed
qed

lemma registryAgrees_registryCall:
  "registryAgrees p \<Longrightarrow> callKeepsDigestsApart env p c \<Longrightarrow> registryAgrees (registryCall env p c)"
  by (cases c) (simp_all add: registryAgrees_updateAssetIntegrity registryAgrees_updateHash)

lemma registryAgrees_registryCalls:
  "registryAgrees p \<Longrightarrow> digestsApart env p cs \<Longrightarrow> registryAgrees (registryCalls env p cs)"
  unfolding registryCalls_def
proof (induction cs arbitrary: p)
  case Nil
  then show ?case by simp
next
  case (Cons c cs)
  from Cons.prems have "registryAgrees (registryCall env p c)"
    by (simp add: registryAgrees_registryCall)
  then show ?case using Cons.IH Cons.prems by simp
qed

lemma registryAgrees_newPlugin: "registryAgrees (newPlugin c opts)"
  by (simp add: registryAgrees_def newPlugin_def)

text \<open>
  C1, as the code has it. After any sequence of \<open>updateAssetIntegrity\<close> and
  \<open>updateHash\<close> calls on a new plugin, an entry of the reverse map always has its
  forward entry: if the reverse map sends \<open>d\<close> to \<open>k\<close> then the lookup of \<open>k\<close> gives
  \<open>d\<close>. The two maps hold exactly the same pairs when no call of the sequence stores
  a digest that another asset key holds at that moment.
\<close>

theorem registry_inverse_sound:
  "(inverseAssetIntegrity (registryCalls env (newPlugin c opts) calls) d = Some k \<longrightarrow>
      assetIntegrity (registryCalls env (newPlugin c opts) calls) k = Some d)
   \<and> (digestsApart env (newPlugin c opts) calls \<longrightarrow>
        (assetIntegrity (registryCalls env (newPlugin c opts) calls) k = Some d) =
        (inverseAssetIntegrity (registryCalls env (newPlugin c opts) calls) d = Some k))"
proof (intro conjI impI)
  have "inverseSound (registryCalls env (newPlugin c opts) calls)"
    by (rule inverseSound_registryCalls[OF inverseSound_newPlugin])
  then show "inverseAssetIntegrity (registryCalls env (newPlugin c opts) calls) d = Some k \<Longrightarrow>
      assetIntegrity (registryCalls env (newPlugin c opts) calls) k = Some d"
    by (simp add: inverseSound_def)
next
  assume "digestsApart env (newPlugin c opts) calls"
  then have "registryAgrees (registryCalls env (newPlugin c opts) calls)"
    by (rule registryAgrees_registryCalls[OF registryAgrees_newPlugin])
  then show "(assetIntegrity (registryCalls env (newPlugin c opts) calls) k = Some d) =
        (inverseAssetIntegrity (registryCalls env (newPlugin c opts) calls) d = Some k)"
    by (simp add: registryAgrees_def)
qed

theorem registry_inverse_sound_witness:
  "digestsApart exampleEnv (newPlugin exampleCompilation exampleOptions)
        [Record ''a.js'' ''sha256-AAAA'', Rehash [''xy''] ''sha256-AAAA'']
   \<and> inverseAssetIntegrity
     (registryCalls exampleEnv (newPlugin exampleCompilation exampleOptions)
        [Record ''a.js'' ''sha256-AAAA'', Rehash [''xy''] ''sha256-AAAA''])
     ''sha256-AA'' = Some ''a.js''
   \<and> assetIntegrity
     (registryCalls exampleEnv (newPlugin exampleCompilation exampleOptions)
        [Record ''a.js'' ''sha256-AAAA'', Rehash [''xy''] ''sha256-AAAA''])
     ''a.js'' = Some ''sha256-AA''"
  using registry_inverse_sound
    [where env = exampleEnv and c = exampleCompilation and opts = exampleOptions
       and calls = "[Record ''a.js'' ''sha256-AAAA'', Rehash [''xy''] ''sha256-AAAA'']"
       and d = "''sha256-AA''" and k = "''a.js''"]
  by (simp add: registry_eval)

text \<open>
  C1 as stated fails: two asset keys recorded with the same digest (two assets with
  the same content). The lookup of \<open>a.js\<close> gives the digest, and the reverse map sends
  the digest to \<open>b.js\<close>.
\<close>

theorem registry_disagree_counterexample:
  "assetIntegrity
     (registryCalls exampleEnv (newPlugin exampleCompilation exampleOptions)
        [Record ''a.js'' ''sha256-AAAA'', Record ''b.js'' ''sha256-AAAA''])
     ''a.js'' = Some ''sha256-AAAA''
   \<and> inverseAssetIntegrity
     (registryCalls exampleEnv (newPlugin exampleCompilation exampleOptions)
        [Record ''a.js'' ''sha256-AAAA'', Record ''b.js'' ''sha256-AAAA''])
     ''sha256-AAAA'' \<noteq> Some ''a.js''"
  by (simp add: registry_eval)

text \<open>
  C3. An asset key is the path-like name of a build output, so it is not the empty
  string. When the reverse map sends \<open>oldHash\<close> to an asset key and one buffer is
  given, \<open>updateHash\<close> returns the digest of the buffer, the forward entry of the key
  becomes that digest, the reverse entry of \<open>oldHash\<close> is removed and the reverse
  entry of the new digest is the key. When \<open>oldHash\<close> has no reverse entry, or the
  input is not one buffer, it returns \<open>undefined\<close> and the plugin is unchanged. The
  function returns for every input: no exception leaves it.
\<close>

theorem updateHash_replaces_or_noop:
  "(inverseAssetIntegrity p oldHash = Some k \<and> k \<noteq> [] \<longrightarrow>
      updateHash env p [b] oldHash =
        (Some (computeIntegrity env (hashFuncNames (options p)) b),
         p\<lparr> assetIntegrity :=
              (assetIntegrity p)(k \<mapsto> computeIntegrity env (hashFuncNames (options p)) b),
            inverseAssetIntegrity :=
              ((inverseAssetIntegrity p)(oldHash := None))
                (computeIntegrity env (hashFuncNames (options p)) b \<mapsto> k) \<rparr>))
   \<and> (inverseAssetIntegrity p oldHash = None \<or> length input \<noteq> 1 \<longrightarrow>
      updateHash env p input oldHash = (None, p))"
  using updateHash_known[of p oldHash k "[b]" b env] updateHash_unknown[of p oldHash input env]
  by blast

theorem updateHash_replaces_or_noop_witness:
  "inverseAssetIntegrity (updateAssetIntegrity (newPlugin exampleCompilation exampleOptions) ''a.js'' ''sha256-AAAA'') ''sha256-AAAA'' = Some ''a.js''
   \<and> fst (updateHash exampleEnv (updateAssetIntegrity (newPlugin exampleCompilation exampleOptions) ''a.js'' ''sha256-AAAA'')
        [''xy''] ''sha256-AAAA'') = Some ''sha256-AA''
   \<and> assetIntegrity (snd (updateHash exampleEnv (updateAssetIntegrity (newPlugin exampleCompilation exampleOptions) ''a.js'' ''sha256-AAAA'')
        [''xy''] ''sha256-AAAA'')) ''a.js'' = Some ''sha256-AA''
   \<and> inverseAssetIntegrity (snd (updateHash exampleEnv (updateAssetIntegrity (newPlugin exampleCompilation exampleOptions) ''a.js'' ''sha256-AAAA'')
        [''xy''] ''sha256-AAAA'')) ''sha256-AA'' = Some ''a.js''
   \<and> inverseAssetIntegrity (snd (updateHash exampleEnv (updateAssetIntegrity (newPlugin exampleCompilation exampleOptions) ''a.js'' ''sha256-AAAA'')
        [''xy''] ''sha256-AAAA'')) ''sha256-AAAA'' = None
   \<and> updateHash exampleEnv (updateAssetIntegrity (newPlugin exampleCompilation exampleOptions) ''a.js'' ''sha256-AAAA'')
        [''xy''] ''sha256-B'' = (None, (updateAssetIntegrity (newPlugin exampleCompilation exampleOptions) ''a.js'' ''sha256-AAAA''))
   \<and> updateHash exampleEnv (updateAssetIntegrity (newPlugin exampleCompilation exampleOptions) ''a.js'' ''sha256-AAAA'')
        [''x'', ''y''] ''sha256-AAAA'' = (None, (updateAssetIntegrity (newPlugin exampleCompilation exampleOptions) ''a.js'' ''sha256-AAAA''))"
  using updateHash_replaces_or_noop
    [where p = "updateAssetIntegrity (newPlugin exampleCompilation exampleOptions) ''a.js'' ''sha256-AAAA''"
       and env = exampleEnv and oldHash = "''sha256-AAAA''" and k = "''a.js''" and b = "''xy''"
       and input = "[''x'', ''y'']"]
  by (simp add: registry_eval)

text \<open>
  C4. \<open>updateAssetIntegrity\<close> changes nothing when the asset key is present. When
  it is absent the call inserts the forward and the reverse entry, and after
  \<open>updateAssetIntegrity(k, d1)\<close> a later \<open>updateAssetIntegrity(k, d2)\<close>, with any
  other calls of \<open>updateAssetIntegrity\<close> between the two, leaves the lookup of \<open>k\<close> at
  \<open>d1\<close>. A second call for the same key right after the first changes nothing.
\<close>

theorem updateAssetIntegrity_first_writer_wins:
  "(assetIntegrity p k \<noteq> None \<longrightarrow> updateAssetIntegrity p k dFirst = p)
   \<and> (assetIntegrity p k = None \<longrightarrow>
        assetIntegrity (updateAssetIntegrity p k dFirst) k = Some dFirst
        \<and> inverseAssetIntegrity (updateAssetIntegrity p k dFirst) dFirst = Some k
        \<and> assetIntegrity
             (updateAssetIntegrity
                (foldl (\<lambda>q (k', d'). updateAssetIntegrity q k' d')
                   (updateAssetIntegrity p k dFirst) between)
                k dLater) k = Some dFirst)
   \<and> updateAssetIntegrity (updateAssetIntegrity p k dFirst) k dLater = updateAssetIntegrity p k dFirst"
proof (intro conjI impI)
  assume "assetIntegrity p k \<noteq> None"
  then show "updateAssetIntegrity p k dFirst = p" by (rule updateAssetIntegrity_present)
next
  assume a: "assetIntegrity p k = None"
  then show f: "assetIntegrity (updateAssetIntegrity p k dFirst) k = Some dFirst"
    by (simp add: updateAssetIntegrity_def)
  from a show "inverseAssetIntegrity (updateAssetIntegrity p k dFirst) dFirst = Some k"
    by (simp add: updateAssetIntegrity_def)
  from f show "assetIntegrity
             (updateAssetIntegrity
                (foldl (\<lambda>q (k', d'). updateAssetIntegrity q k' d')
                   (updateAssetIntegrity p k dFirst) between)
                k dLater) k = Some dFirst"
    by (simp add: updateAssetIntegrity_keeps records_keep)
next
  show "updateAssetIntegrity (updateAssetIntegrity p k dFirst) k dLater = updateAssetIntegrity p k dFirst"
    by (simp add: updateAssetIntegrity_def)
qed

theorem updateAssetIntegrity_first_writer_wins_witness:
  "assetIntegrity (newPlugin exampleCompilation exampleOptions) ''a.js'' = None
   \<and> assetIntegrity
        (updateAssetIntegrity
           (foldl (\<lambda>q (k', d'). updateAssetIntegrity q k' d')
              (updateAssetIntegrity (newPlugin exampleCompilation exampleOptions) ''a.js'' ''sha256-AAAA'')
              [(''b.js'', ''sha256-C'')])
           ''a.js'' ''sha256-BB'') ''a.js'' = Some ''sha256-AAAA''
   \<and> updateAssetIntegrity
        (updateAssetIntegrity (newPlugin exampleCompilation exampleOptions) ''a.js'' ''sha256-AAAA'')
        ''a.js'' ''sha256-BB''
      = updateAssetIntegrity (newPlugin exampleCompilation exampleOptions) ''a.js'' ''sha256-AAAA''"
  using updateAssetIntegrity_first_writer_wins
    [where p = "newPlugin exampleCompilation exampleOptions" and k = "''a.js''"
       and dFirst = "''sha256-AAAA''" and dLater = "''sha256-BB''"
       and between = "[(''b.js'', ''sha256-C'')]"]
  by (simp add: registry_eval)

section \<open>Properties of addMissingIntegrityHashes\<close>

lemmas assets_eval =
  addMissingIntegrityHashes_def addMissingIntegrityHash_def assetContent_def














section \<open>Properties of beforeRuntimeRequirements\<close>

text \<open>
  C5, as the code has it. \<open>beforeRuntimeRequirements\<close> empties \<open>hashByChunkId\<close>, so
  every lookup of a chunk id gives nothing after the call. It leaves the two
  asset-integrity maps as they are; they are empty after the call on a plugin that
  has just been constructed.
\<close>

theorem beforeRuntimeRequirements_clears_hashByChunkId:
  "hashByChunkId (beforeRuntimeRequirements env p) = []
   \<and> map_of (hashByChunkId (beforeRuntimeRequirements env p)) i = None
   \<and> assetIntegrity (beforeRuntimeRequirements env p) = assetIntegrity p
   \<and> inverseAssetIntegrity (beforeRuntimeRequirements env p) = inverseAssetIntegrity p
   \<and> assetIntegrity (beforeRuntimeRequirements env (newPlugin c opts)) k = None
   \<and> inverseAssetIntegrity (beforeRuntimeRequirements env (newPlugin c opts)) d = None"
  by (simp add: beforeRuntimeRequirements_def newPlugin_def Let_def split: prod.splits)

theorem beforeRuntimeRequirements_clears_hashByChunkId_witness:
  "hashByChunkId
     (beforeRuntimeRequirements exampleEnv
        ((newPlugin exampleCompilation exampleOptions)\<lparr> hashByChunkId := [(IdNumber 7, ''sha256-A'')] \<rparr>))
     = []
   \<and> assetIntegrity (beforeRuntimeRequirements exampleEnv (newPlugin exampleCompilation exampleOptions))
        ''a.js'' = None"
  using beforeRuntimeRequirements_clears_hashByChunkId
    [where env = exampleEnv
       and p = "(newPlugin exampleCompilation exampleOptions)\<lparr> hashByChunkId := [(IdNumber 7, ''sha256-A'')] \<rparr>"
       and c = exampleCompilation and opts = exampleOptions and k = "''a.js''"]
  by simp

text \<open>
  C5 as stated fails: an asset recorded before the call is still in both
  asset-integrity maps after it.
\<close>

theorem beforeRuntimeRequirements_keeps_registry_counterexample:
  "assetIntegrity
     (beforeRuntimeRequirements exampleEnv
        (addMissingIntegrityHashes exampleEnv (newPlugin exampleCompilation exampleOptions)
           [(''a.js'', RawSource ''xy'')]))
     ''a.js'' = Some ''sha256-AA''
   \<and> inverseAssetIntegrity
     (beforeRuntimeRequirements exampleEnv
        (addMissingIntegrityHashes exampleEnv (newPlugin exampleCompilation exampleOptions)
           [(''a.js'', RawSource ''xy'')]))
     ''sha256-AA'' = Some ''a.js''"
  by (simp add: beforeRuntimeRequirements_def registry_eval assets_eval)

section \<open>Properties of processTag\<close>

lemmas tag_eval =
  processTag_def hwpAssetPath_def tagIntegrity_def crossoriginValue_def
  getIntegrityChecksumForAsset_def exampleTagSrc_def exampleCompilation_def

lemma processTag_has_integrity:
  "attributes tag ''integrity'' \<noteq> None \<Longrightarrow> processTag env p tag = Inr tag"
  by (simp add: processTag_def)

lemma processTag_no_src:
  "getTagSrc env tag = None \<or> getTagSrc env tag = Some [] \<Longrightarrow> processTag env p tag = Inr tag"
  by (auto simp: processTag_def)

lemma processTag_cases:
  assumes "processTag env p tag = Inr tag'"
  shows "tag' = tag
    \<or> (\<exists>integrity. tag' = tag\<lparr> attributes := (attributes tag)
            (''integrity'' \<mapsto> AttrString integrity,
             ''crossorigin'' \<mapsto> AttrString (crossoriginValue p)) \<rparr>)"
  using assms
  by (auto simp: processTag_def split: if_splits option.splits sum.splits)

lemma processTag_again:
  assumes "processTag env p tag = Inr tag'"
  shows "processTag env p' tag' = Inr tag'"
proof (cases "attributes tag ''integrity'' \<noteq> None
    \<or> getTagSrc env tag = None \<or> getTagSrc env tag = Some []")
  case True
  then have "processTag env p tag = Inr tag"
    using processTag_has_integrity processTag_no_src by blast
  with assms have "tag' = tag" by simp
  then show ?thesis using True processTag_has_integrity processTag_no_src by blast
next
  case False
  with assms have "attributes tag' ''integrity'' \<noteq> None"
    by (auto simp: processTag_def split: if_splits option.splits sum.splits)
  then show ?thesis by (rule processTag_has_integrity)
qed

lemma processTags_again:
  "processTags env p tags = Inr tags' \<Longrightarrow> processTags env p' tags' = Inr tags'"
proof (induction tags arbitrary: tags')
  case Nil
  then show ?case by simp
next
  case (Cons tag tags)
  from Cons.prems obtain t ts where
    t: "processTag env p tag = Inr t" and ts: "processTags env p tags = Inr ts"
    and eq: "tags' = t # ts"
    by (auto split: sum.splits)
  from t have "processTag env p' t = Inr t" by (rule processTag_again)
  moreover from ts have "processTags env p' ts = Inr ts" by (rule Cons.IH)
  ultimately show ?case using eq by simp
qed

text \<open>
  C7. A tag that has an \<open>integrity\<close> attribute is returned unchanged. A tag that
  \<open>processTag\<close> has returned is returned unchanged by a second call, whatever the
  registry holds then, and so is every tag of a list that the \<open>forEach\<close> over
  \<open>processTag\<close> has returned.
\<close>

theorem processTag_idempotent:
  "(attributes tag ''integrity'' \<noteq> None \<longrightarrow> processTag env p tag = Inr tag)
   \<and> (processTag env p tag = Inr tag' \<longrightarrow> processTag env p' tag' = Inr tag')
   \<and> (processTags env p tags = Inr tags' \<longrightarrow> processTags env p' tags' = Inr tags')"
  using processTag_has_integrity processTag_again processTags_again by blast

theorem processTag_idempotent_witness:
  "processTag exampleEnv mainPlugin mainTag = Inr (mainTag\<lparr> attributes :=
            [''src'' \<mapsto> AttrString ''main.js'', ''integrity'' \<mapsto> AttrString ''sha256-BBBB'',
             ''crossorigin'' \<mapsto> AttrString ''anonymous''] \<rparr>)
   \<and> processTag exampleEnv (newPlugin exampleCompilation exampleOptions)
        (mainTag\<lparr> attributes :=
            [''src'' \<mapsto> AttrString ''main.js'', ''integrity'' \<mapsto> AttrString ''sha256-BBBB'',
             ''crossorigin'' \<mapsto> AttrString ''anonymous''] \<rparr>)
      = Inr (mainTag\<lparr> attributes :=
            [''src'' \<mapsto> AttrString ''main.js'', ''integrity'' \<mapsto> AttrString ''sha256-BBBB'',
             ''crossorigin'' \<mapsto> AttrString ''anonymous''] \<rparr>)
   \<and> processTags exampleEnv mainPlugin [mainTag, styleTag] =
        Inr [mainTag\<lparr> attributes :=
            [''src'' \<mapsto> AttrString ''main.js'', ''integrity'' \<mapsto> AttrString ''sha256-BBBB'',
             ''crossorigin'' \<mapsto> AttrString ''anonymous''] \<rparr>, styleTag]
   \<and> processTags exampleEnv (newPlugin exampleCompilation exampleOptions)
        [mainTag\<lparr> attributes :=
            [''src'' \<mapsto> AttrString ''main.js'', ''integrity'' \<mapsto> AttrString ''sha256-BBBB'',
             ''crossorigin'' \<mapsto> AttrString ''anonymous''] \<rparr>, styleTag] =
        Inr [mainTag\<lparr> attributes :=
            [''src'' \<mapsto> AttrString ''main.js'', ''integrity'' \<mapsto> AttrString ''sha256-BBBB'',
             ''crossorigin'' \<mapsto> AttrString ''anonymous''] \<rparr>, styleTag]"
  using processTag_idempotent
    [where env = exampleEnv and p = mainPlugin
       and p' = "newPlugin exampleCompilation exampleOptions" and tag = mainTag
       and tag' = "mainTag\<lparr> attributes :=
            [''src'' \<mapsto> AttrString ''main.js'', ''integrity'' \<mapsto> AttrString ''sha256-BBBB'',
             ''crossorigin'' \<mapsto> AttrString ''anonymous''] \<rparr>"
       and tags = "[mainTag, styleTag]"
       and tags' = "[mainTag\<lparr> attributes :=
            [''src'' \<mapsto> AttrString ''main.js'', ''integrity'' \<mapsto> AttrString ''sha256-BBBB'',
             ''crossorigin'' \<mapsto> AttrString ''anonymous''] \<rparr>, styleTag]"]
  by (simp add: mainTag_def styleTag_def mainPlugin_def registry_eval tag_eval)

text \<open>
  C8. When \<open>processTag\<close> annotates a tag (the tag has no \<open>integrity\<close> attribute, it
  has a non-empty source and the call returns), the tag has an \<open>integrity\<close> attribute
  and its \<open>crossorigin\<close> attribute is the cross-origin loading mode of the output
  configuration, \<open>anonymous\<close> when the mode is unset. A tag whose source resolves to
  an asset key with a registry entry, under an unset mode, gets that entry as
  \<open>integrity\<close> and \<open>anonymous\<close> as \<open>crossorigin\<close>; the witness is the tag with source
  \<open>main.js\<close> and the entry \<open>sha256-BBBB\<close>.
\<close>

theorem processTag_crossorigin:
  "(attributes tag ''integrity'' = None \<and> getTagSrc env tag = Some tagSrc \<and> tagSrc \<noteq> []
      \<and> processTag env p tag = Inr tag' \<longrightarrow>
      attributes tag' ''integrity'' \<noteq> None
      \<and> attributes tag' ''crossorigin'' =
          Some (AttrString (case crossOriginLoading (compilation p) of
                              None \<Rightarrow> ''anonymous''
                            | Some mode \<Rightarrow> crossOriginString mode)))
   \<and> (attributes tag ''integrity'' = None \<and> getTagSrc env tag = Some tagSrc \<and> tagSrc \<noteq> []
      \<and> hwpPublicPath p = Some publicPath
      \<and> assetIntegrity p (relative env publicPath tagSrc) = Some digest \<and> digest \<noteq> []
      \<and> crossOriginLoading (compilation p) = None \<longrightarrow>
      processTag env p tag =
        Inr (tag\<lparr> attributes := (attributes tag)
               (''integrity'' \<mapsto> AttrString digest,
                ''crossorigin'' \<mapsto> AttrString ''anonymous'') \<rparr>))"
  by (auto simp: processTag_def hwpAssetPath_def tagIntegrity_def crossoriginValue_def
      getIntegrityChecksumForAsset_def Let_def split: if_splits option.splits sum.splits)

theorem processTag_crossorigin_witness:
  "attributes mainTag ''integrity'' = None
   \<and> getTagSrc exampleEnv mainTag = Some ''main.js''
   \<and> assetIntegrity mainPlugin (relative exampleEnv [] ''main.js'') = Some ''sha256-BBBB''
   \<and> processTag exampleEnv mainPlugin mainTag = Inr (mainTag\<lparr> attributes :=
            [''src'' \<mapsto> AttrString ''main.js'', ''integrity'' \<mapsto> AttrString ''sha256-BBBB'',
             ''crossorigin'' \<mapsto> AttrString ''anonymous''] \<rparr>)"
  using processTag_crossorigin
    [where env = exampleEnv and p = mainPlugin and tag = mainTag and tagSrc = "''main.js''"
       and publicPath = "[]" and digest = "''sha256-BBBB''"]
  by (simp add: mainTag_def mainPlugin_def registry_eval tag_eval)

text \<open>
  C10. A tag that \<open>processTag\<close> returns has the tag name and the other fields of the
  tag it was given, and the same attributes but for \<open>integrity\<close> and \<open>crossorigin\<close>.
  A tag without a source is returned unchanged for every plugin and every
  environment, also where the public path is not set and no file can be read.
\<close>

theorem processTag_frame:
  "(processTag env p tag = Inr tag' \<longrightarrow>
      tagName tag' = tagName tag \<and> voidTag tag' = voidTag tag
      \<and> (\<forall>a. a \<noteq> ''integrity'' \<and> a \<noteq> ''crossorigin'' \<longrightarrow>
            attributes tag' a = attributes tag a))
   \<and> (getTagSrc env tag = None \<longrightarrow> processTag env p tag = Inr tag)"
proof -
  have "tagName tag' = tagName tag \<and> voidTag tag' = voidTag tag
      \<and> (\<forall>a. a \<noteq> ''integrity'' \<and> a \<noteq> ''crossorigin'' \<longrightarrow>
            attributes tag' a = attributes tag a)"
    if "processTag env p tag = Inr tag'"
    using processTag_cases[OF that] by auto
  moreover have "processTag env p tag = Inr tag" if "getTagSrc env tag = None"
    using that by (simp add: processTag_no_src)
  ultimately show ?thesis by blast
qed

theorem processTag_frame_witness:
  "processTag exampleEnv mainPlugin mainTag = Inr (mainTag\<lparr> attributes :=
            [''src'' \<mapsto> AttrString ''main.js'', ''integrity'' \<mapsto> AttrString ''sha256-BBBB'',
             ''crossorigin'' \<mapsto> AttrString ''anonymous''] \<rparr>)
   \<and> attributes (mainTag\<lparr> attributes :=
            [''src'' \<mapsto> AttrString ''main.js'', ''integrity'' \<mapsto> AttrString ''sha256-BBBB'',
             ''crossorigin'' \<mapsto> AttrString ''anonymous''] \<rparr>) ''src'' = attributes mainTag ''src''
   \<and> getTagSrc exampleEnv styleTag = None
   \<and> hwpPublicPath (newPlugin exampleCompilation exampleOptions) = None
   \<and> processTag exampleEnv (newPlugin exampleCompilation exampleOptions) styleTag = Inr styleTag"
  using processTag_frame
    [where env = exampleEnv and p = "newPlugin exampleCompilation exampleOptions"
       and tag = styleTag and tag' = styleTag]
  by (simp add: mainTag_def styleTag_def mainPlugin_def registry_eval tag_eval)

section \<open>Properties of the chunk walk\<close>

lemmas walk_eval =
  processAssets_def processChunk_def processChunkAssets_def processChunkFile_def
  replaceAsset_def chunkFiles_def sortReplacements_def replacement_le_def
  addMissingIntegrityHashes_def addMissingIntegrityHash_def assetContent_def
  updateAssetIntegrity_def newPlugin_def Let_def
  exampleEnv_def exampleOptions_def exampleCompilation_def exampleIntegrity_def
  examplePlaceholder_def natString.simps

lemma assetContent_update:
  "assetContent (AList.update f a assets) k = (if k = f then source a else assetContent assets k)"
  by (simp add: assetContent_def update_conv')



lemma processChunkFile_found:
  assumes "map_of assets f = Some a" "source a = Some oldSource"
  shows "processChunkFile env c (p, assets) f =
     Inr (updateAssetIntegrity
            (case chunk_id c of
               None \<Rightarrow> p
             | Some i \<Rightarrow>
                 p\<lparr> hashByChunkId :=
                      AList.update i
                        (computeIntegrity env (hashFuncNames (options p))
                           (replacedContent env p oldSource))
                        (hashByChunkId p) \<rparr>)
            f (computeIntegrity env (hashFuncNames (options p)) (replacedContent env p oldSource)),
          AList.update f
            (ReplaceSource a
               (markerReplacements env (hashFuncNames (options p)) oldSource (hashByChunkId p)))
            assets)"
  using assms
  by (simp add: processChunkFile_def replaceAsset_def replacedContent_def Let_def
      split: option.splits)

text \<open>
  C6, as the code has it. For a file that \<open>processChunkAssets\<close> finds in \<open>assets\<close> and
  whose source can be read, the step returns, the content of the asset after the
  step is the content after the replacement of the placeholders, the hash stored in
  \<open>hashByChunkId\<close> for the chunk's id is the digest of that content, and the registry
  entry of the file is that digest when the file had no entry; a file that has an
  entry keeps it.
\<close>

theorem processChunkFile_digest_after_replacement:
  "map_of assets sourcePath = Some asset \<and> source asset = Some oldSource \<longrightarrow>
     (\<exists>p' assets'.
        processChunkFile env childChunk (p, assets) sourcePath = Inr (p', assets')
        \<and> assetContent assets' sourcePath = Some (replacedContent env p oldSource)
        \<and> (\<forall>i. chunk_id childChunk = Some i \<longrightarrow>
              map_of (hashByChunkId p') i =
                Some (computeIntegrity env (hashFuncNames (options p))
                        (replacedContent env p oldSource)))
        \<and> assetIntegrity p' sourcePath =
            (if assetIntegrity p sourcePath = None
             then Some (computeIntegrity env (hashFuncNames (options p))
                          (replacedContent env p oldSource))
             else assetIntegrity p sourcePath))"
proof (intro impI, elim conjE)
  assume a: "map_of assets sourcePath = Some asset" "source asset = Some oldSource"
  show "\<exists>p' assets'.
        processChunkFile env childChunk (p, assets) sourcePath = Inr (p', assets')
        \<and> assetContent assets' sourcePath = Some (replacedContent env p oldSource)
        \<and> (\<forall>i. chunk_id childChunk = Some i \<longrightarrow>
              map_of (hashByChunkId p') i =
                Some (computeIntegrity env (hashFuncNames (options p))
                        (replacedContent env p oldSource)))
        \<and> assetIntegrity p' sourcePath =
            (if assetIntegrity p sourcePath = None
             then Some (computeIntegrity env (hashFuncNames (options p))
                          (replacedContent env p oldSource))
             else assetIntegrity p sourcePath)"
    unfolding processChunkFile_found[OF a]
    by (cases "chunk_id childChunk")
       (auto simp: assetContent_update a replacedContent_def updateAssetIntegrity_def update_conv')
qed

theorem processChunkFile_digest_after_replacement_witness:
  "map_of lazyAssets ''1.js'' = Some (RawSource ''load(%%SRI0-CHUNK7%%)'')
   \<and> replacedContent exampleEnv hashedPlugin ''load(%%SRI0-CHUNK7%%)'' = ''load(sha256-A)''
   \<and> \<not> isl (processChunkFile exampleEnv chunk1 (hashedPlugin, lazyAssets) ''1.js'')
   \<and> assetContent (snd (projr (processChunkFile exampleEnv chunk1 (hashedPlugin, lazyAssets) ''1.js''))) ''1.js''
       = Some ''load(sha256-A)''
   \<and> map_of (hashByChunkId (fst (projr (processChunkFile exampleEnv chunk1 (hashedPlugin, lazyAssets) ''1.js''))))
         (IdNumber 1) = Some (computeIntegrity exampleEnv [''sha256''] ''load(sha256-A)'')
   \<and> assetIntegrity (fst (projr (processChunkFile exampleEnv chunk1 (hashedPlugin, lazyAssets) ''1.js''))) ''1.js''
       = Some (computeIntegrity exampleEnv [''sha256''] ''load(sha256-A)'')"
  using processChunkFile_digest_after_replacement
    [where env = exampleEnv and p = hashedPlugin and assets = lazyAssets
       and childChunk = chunk1 and sourcePath = "''1.js''"
       and asset = "RawSource ''load(%%SRI0-CHUNK7%%)''"
       and oldSource = "''load(%%SRI0-CHUNK7%%)''"]
  by (simp add: walk_eval replacedContent_def hashedPlugin_def lazyPlugin_def lazyAssets_def
      chunk1_def chunk7_def)

text \<open>
  C6 as stated fails where a file with a registry entry is processed again. In the
  eager walk over two chunks that load each other, \<open>b.js\<close> is processed before any
  hash is known and then again with the hash of \<open>a\<close>: its content ends with the
  placeholder replaced, and its registry entry is still the digest of the original
  content.
\<close>

theorem processAssets_stale_digest_counterexample:
  "\<not> isl (processAssets cycleEnv cyclePlugin cycleAssets)
   \<and> assetContent (snd (projr (processAssets cycleEnv cyclePlugin cycleAssets))) ''b.js''
       = Some ''B:sha256-AAAAAAAAAAAAAAAAAAAAAAAAAA''
   \<and> assetIntegrity (fst (projr (processAssets cycleEnv cyclePlugin cycleAssets))) ''b.js''
       = Some (computeIntegrity cycleEnv [''sha256''] ''B:%%SRI0-CHUNKa%%'')
   \<and> assetIntegrity (fst (projr (processAssets cycleEnv cyclePlugin cycleAssets))) ''b.js''
       \<noteq> Some (computeIntegrity cycleEnv [''sha256''] ''B:sha256-AAAAAAAAAAAAAAAAAAAAAAAAAA'')"
  by (simp add: walk_eval cycleEnv_def cyclePlugin_def cycleAssets_def chunkA_def chunkB_def)

















end
